theory Spec2Isabelle
  imports Complex_Main "HOL-Library.Char_ord" "HOL-Library.List_Lexorder"
begin

section \<open>The speech-emotion page of \<^verbatim>\<open>app.py\<close>\<close>

text \<open>
  The repository is one Streamlit script. It loads a TensorFlow Lite interpreter, turns an
  uploaded WAV file into a fixed-size MFCC matrix, runs the interpreter on it, takes the
  arg-max of the output vector as the dominant emotion and shows an advisory text for it.

  Conventions of the embedding:
  \<^item> a Python \<open>str\<close> is a \<open>string\<close> holding its UTF-8 bytes (the emoji of the source
    are written byte by byte); the encoding is injective, so equality of texts is
    equality of their byte lists;
  \<^item> a Python exception is a value of type \<open>exn\<close>: its class name and the text that
    \<open>str(e)\<close> gives; a call that may raise returns \<open>exn + 'a\<close>, \<open>Inl\<close> being the raise;
  \<^item> the libraries the script calls (librosa, the TensorFlow Lite runtime) are parameters:
    records of functions, each returning \<open>Inl\<close> where the library would raise;
  \<^item> what the script does to the outside (widgets shown, temporary files) is a
    \<open>world\<close> record passed through every function that has an effect.
\<close>

subsection \<open>Exceptions\<close>

datatype exn = Exn (exn_class: string) (exn_msg: string)

subsection \<open>Labels and the advisory texts\<close>

text \<open>
  \<^verbatim>\<open>EMOTION_LABELS = sorted(['angry', 'calm', ..., 'surprised'])\<close>: Python compares
  strings code point by code point, which on these ASCII labels is the lexicographic
  order of the byte lists.
\<close>

definition EMOTION_LABELS :: "string list" where
  "EMOTION_LABELS =
     sort [''angry'', ''calm'', ''disgust'', ''fearful'', ''happy'', ''neutral'', ''sad'',
           ''surprised'']"

text \<open>The dictionary literal of \<^verbatim>\<open>get_feedback\<close>, in the order of the source.\<close>

definition feedback_dict :: "(string \<times> string) list" where
  "feedback_dict =
   [(''angry'', [CHR 0xF0, CHR 0x9F, CHR 0x94, CHR 0xA5] @ '' Terdeteksi marah. Suara Anda terdengar tegas. Untuk beberapa konteks, ini bagus untuk penekanan. Namun, untuk audiens umum, coba bicara dengan intonasi lebih kalem dan hindari tekanan berlebih.''),
    (''happy'', [CHR 0xF0, CHR 0x9F, CHR 0x98, CHR 0x8A] @ '' Bagus! Suaramu terdengar menyenangkan dan bersemangat. Energi positif seperti ini sangat menular ke audiens. Pertahankan!''),
    (''sad'', [CHR 0xF0, CHR 0x9F, CHR 0x92, CHR 0xA7] @ '' Terdeteksi sedih. Jika ini disengaja untuk story-telling, ini efektif. Jika tidak, coba tingkatkan semangat dan naikkan intonasi untuk menjaga perhatian audiens.''),
    (''neutral'', [CHR 0xF0, CHR 0x9F, CHR 0x98, CHR 0x90] @ '' Netral. Suara Anda terdengar jelas namun kurang menunjukkan emosi. Coba tambahkan lebih banyak variasi intonasi (naik-turun) agar tidak terdengar datar dan lebih menarik.''),
    (''fearful'', [CHR 0xF0, CHR 0x9F, CHR 0x98, CHR 0xA8] @ '' Terdeteksi takut atau gugup. Ini wajar. Tenangkan diri sebelum bicara, ambil napas dalam, dan latih artikulasi Anda. Berbicara sedikit lebih lambat bisa membantu.''),
    (''calm'', [CHR 0xF0, CHR 0x9F, CHR 0xA7, CHR 0x98] @ '' Sangat baik! Suara Anda terdengar tenang, terkontrol, dan nyaman untuk didengar. Ini menciptakan suasana yang meyakinkan dan dapat dipercaya.''),
    (''surprised'', [CHR 0xF0, CHR 0x9F, CHR 0x98, CHR 0xAE] @ '' Terdengar terkejut. Emosi ini sangat bagus untuk digunakan sebagai penekanan pada poin-poin penting atau saat menyampaikan sesuatu yang tidak terduga untuk membangun klimaks.''),
    (''disgust'', [CHR 0xF0, CHR 0x9F, CHR 0xA4, CHR 0xA2] @ '' Terdeteksi emosi negatif (jijik/tidak suka). Hati-hati dengan nada ini karena bisa membuat audiens merasa tidak nyaman atau tersinggung. Pastikan nada Anda sesuai dengan pesan yang ingin disampaikan.'')]"

definition fallback_feedback :: string where
  "fallback_feedback = ''Latih lagi artikulasi dan emosi agar lebih meyakinkan.''"

text \<open>\<^verbatim>\<open>feedback_dict.get(label, fallback)\<close>: the entry of the key, the fallback without one.\<close>

definition get_feedback :: "string \<Rightarrow> string" where
  "get_feedback label =
     (case map_of feedback_dict label of
        None \<Rightarrow> fallback_feedback
      | Some text \<Rightarrow> text)"

subsection \<open>Arrays\<close>

text \<open>
  A two-dimensional numpy array is the list of its rows; the MFCC matrix has one row per
  coefficient and one column per frame. \<open>'a\<close> is the element type (numpy's
  \<open>float32\<close>): the script only copies elements, pads with the zero of the type and, for
  the arg-max, compares them, so \<open>'a\<close> stays a type variable of class \<open>zero\<close>, or
  \<open>linorder\<close> where elements are compared (floats other than NaN are linearly ordered).
\<close>

type_synonym 'a matrix = "'a list list"

definition has_shape :: "nat \<Rightarrow> nat \<Rightarrow> 'a matrix \<Rightarrow> bool" where
  "has_shape r c m \<longleftrightarrow> length m = r \<and> list_all (\<lambda>row. length row = c) m"

text \<open>\<^verbatim>\<open>mfcc.shape[1]\<close>: the number of columns (read from the first row).\<close>

definition shape1 :: "'a matrix \<Rightarrow> nat" where
  "shape1 m = (case m of [] \<Rightarrow> 0 | row # _ \<Rightarrow> length row)"

text \<open>
  \<^verbatim>\<open>np.pad(m, pad_width=((0, 0), (0, w)), mode='constant')\<close>: no row is added, and
  \<open>w\<close> cells holding the default constant 0 are appended to each row.
\<close>

definition np_pad_right :: "'a::zero matrix \<Rightarrow> nat \<Rightarrow> 'a matrix" where
  "np_pad_right m w = map (\<lambda>row. row @ replicate w 0) m"

text \<open>
  A Python slice \<^verbatim>\<open>xs[:k]\<close>: the first \<open>k\<close> elements, and for a negative \<open>k\<close>
  all but the last \<open>-k\<close>. \<^verbatim>\<open>m[:, :k]\<close> slices every row.
\<close>

definition py_slice_to :: "int \<Rightarrow> 'a list \<Rightarrow> 'a list" where
  "py_slice_to k xs = take (nat (if 0 \<le> k then k else int (length xs) + k)) xs"

definition slice_columns :: "'a matrix \<Rightarrow> int \<Rightarrow> 'a matrix" where
  "slice_columns m k = map (py_slice_to k) m"

text \<open>
  \<^verbatim>\<open>features[np.newaxis, ..., np.newaxis]\<close>: a new first axis of length 1 (the batch)
  and a new last axis of length 1 (the channel). \<^verbatim>\<open>.astype(np.float32)\<close> copies the
  elements, which librosa already returns as \<open>float32\<close>.
\<close>

type_synonym 'a tensor4 = "'a list list list list"

definition expand_dims :: "'a matrix \<Rightarrow> 'a tensor4" where
  "expand_dims features = [map (map (\<lambda>x. [x])) features]"

definition has_shape4 :: "nat \<Rightarrow> nat \<Rightarrow> nat \<Rightarrow> nat \<Rightarrow> 'a tensor4 \<Rightarrow> bool" where
  "has_shape4 b r c ch t \<longleftrightarrow>
     length t = b \<and> list_all (\<lambda>m. has_shape r c m \<and> list_all (list_all (\<lambda>cell. length cell = ch)) m) t"

text \<open>
  \<^verbatim>\<open>np.argmax\<close> of a one-dimensional array: numpy raises \<open>ValueError\<close> on an empty
  array and otherwise returns the index of the first occurrence of the maximum. The scan
  keeps the best index so far and replaces it only by a strictly larger element.
\<close>

fun argmax_scan :: "'a::linorder list \<Rightarrow> nat \<Rightarrow> nat \<Rightarrow> 'a \<Rightarrow> nat" where
  "argmax_scan [] i best_i best = best_i"
| "argmax_scan (x # xs) i best_i best =
     (if best < x then argmax_scan xs (Suc i) i x else argmax_scan xs (Suc i) best_i best)"

definition np_argmax :: "'a::linorder list \<Rightarrow> exn + nat" where
  "np_argmax xs =
     (case xs of
        [] \<Rightarrow> Inl (Exn ''ValueError'' ''attempt to get argmax of an empty sequence'')
      | x # rest \<Rightarrow> Inr (argmax_scan rest 1 0 x))"

text \<open>\<^verbatim>\<open>xs[i]\<close> with a non-negative index: \<open>IndexError\<close> out of range.\<close>

definition py_index :: "'a list \<Rightarrow> nat \<Rightarrow> exn + 'a" where
  "py_index xs i =
     (if i < length xs then Inr (xs ! i) else Inl (Exn ''IndexError'' ''index out of range''))"

text \<open>
  \<^verbatim>\<open>str.capitalize()\<close> on ASCII text: the first letter in upper case, the others in
  lower case. Bytes outside \<open>a-z\<close> and \<open>A-Z\<close> are left as they are.
\<close>

definition ascii_upper :: "char \<Rightarrow> char" where
  "ascii_upper c =
     (if CHR ''a'' \<le> c \<and> c \<le> CHR ''z'' then char_of (of_char c - (32::nat)) else c)"

definition ascii_lower :: "char \<Rightarrow> char" where
  "ascii_lower c =
     (if CHR ''A'' \<le> c \<and> c \<le> CHR ''Z'' then char_of (of_char c + (32::nat)) else c)"

definition capitalize :: "string \<Rightarrow> string" where
  "capitalize s = (case s of [] \<Rightarrow> [] | c # cs \<Rightarrow> ascii_upper c # map ascii_lower cs)"

subsection \<open>The world: widgets shown and files\<close>

text \<open>
  One constructor per Streamlit call of the script that shows something. The delta of the
  metric is the formatted confidence \<^verbatim>\<open>f"{confidence*100:.2f}% Keyakinan"\<close>; the
  constructor keeps the confidence itself. The bar chart keeps the rows of the data frame:
  the capitalised label (the index) and its probability.
\<close>

datatype 'a widget =
    Title string
  | Markdown string
  | SidebarHeader string
  | SidebarFileUploader string
  | SidebarMarkdown string
  | Error string
  | Info string
  | Warning string
  | Header string
  | Audio string
  | Spinner string
  | Subheader string
  | Metric string string 'a
  | Success string
  | BarChart "(string \<times> 'a) list"

text \<open>
  \<open>files\<close> maps a path to the bytes stored there. \<open>inferences\<close> counts the calls of
  \<^verbatim>\<open>run_tflite_inference\<close> the script has made; it is the only field the script itself
  has no counterpart of.
\<close>

record 'a world =
  files :: "string \<rightharpoonup> string"
  screen :: "'a widget list"
  inferences :: nat

definition st :: "'a widget \<Rightarrow> 'a world \<Rightarrow> 'a world" where
  "st wd w = w\<lparr>screen := screen w @ [wd]\<rparr>"

subsection \<open>Loading the model\<close>

text \<open>
  The TensorFlow Lite runtime over an interpreter state \<open>'i\<close>: the constructor
  \<^verbatim>\<open>tf.lite.Interpreter(model_path=...)\<close>, \<^verbatim>\<open>allocate_tensors\<close>, the \<open>'index'\<close>
  entries of \<^verbatim>\<open>get_input_details()\<close> and \<^verbatim>\<open>get_output_details()\<close>,
  \<^verbatim>\<open>set_tensor\<close>, \<^verbatim>\<open>invoke\<close> and \<^verbatim>\<open>get_tensor\<close>. The methods that change the
  interpreter return its new state.
\<close>

record ('i, 'a) tflite =
  Interpreter :: "string \<Rightarrow> exn + 'i"
  allocate_tensors :: "'i \<Rightarrow> exn + 'i"
  get_input_details :: "'i \<Rightarrow> nat list"
  get_output_details :: "'i \<Rightarrow> nat list"
  set_tensor :: "'i \<Rightarrow> nat \<Rightarrow> 'a tensor4 \<Rightarrow> exn + 'i"
  invoke :: "'i \<Rightarrow> exn + 'i"
  get_tensor :: "'i \<Rightarrow> nat \<Rightarrow> exn + 'a matrix"

text \<open>\<^verbatim>\<open>os.path.join('models', 'model.tflite')\<close>, with the POSIX separator.\<close>

definition TFLITE_MODEL_PATH :: string where
  "TFLITE_MODEL_PATH = ''models'' @ ''/'' @ ''model.tflite''"

text \<open>The \<^verbatim>\<open>except Exception as e\<close> branch of \<^verbatim>\<open>load_tflite_model\<close>.\<close>

definition load_failed :: "exn \<Rightarrow> 'a world \<Rightarrow> 'a world" where
  "load_failed e w =
     st (Info (''Pastikan Anda sudah menjalankan skrip '' @ [CHR 0x27] @ ''convert_to_tflite.py'' @ [CHR 0x27] @ '' terlebih dahulu.''))
       (st (Error (''Error saat memuat model TFLite di '' @ [CHR 0x27] @ TFLITE_MODEL_PATH @ [CHR 0x27] @ '': '' @ exn_msg e)) w)"

text \<open>
  \<^verbatim>\<open>load_tflite_model\<close>. The result is \<open>exn + _\<close> like that of every Python call, and
  the function has no \<open>Inl\<close> branch: whatever the two library calls raise is caught, shown,
  and answered by \<open>None\<close>. (\<^verbatim>\<open>st.cache_resource\<close> keeps the result for later runs of
  the script; one run is modelled.)
\<close>

definition load_tflite_model ::
  "('i, 'a) tflite \<Rightarrow> 'a world \<Rightarrow> (exn + 'i option) \<times> 'a world" where
  "load_tflite_model tf w =
     (case Interpreter tf TFLITE_MODEL_PATH of
        Inl e \<Rightarrow> (Inr None, load_failed e w)
      | Inr interpreter \<Rightarrow>
          (case allocate_tensors tf interpreter of
             Inl e \<Rightarrow> (Inr None, load_failed e w)
           | Inr interpreter' \<Rightarrow> (Inr (Some interpreter'), w)))"

subsection \<open>Feature extraction\<close>

text \<open>
  librosa over a waveform type \<open>'s\<close>: \<open>decode\<close> is what \<^verbatim>\<open>librosa.load\<close> does with
  the bytes of a file (sample rate, duration limit in seconds), returning the samples and
  the sample rate; \<open>mfcc\<close> is \<^verbatim>\<open>librosa.feature.mfcc(y=, sr=, n_mfcc=)\<close>.
\<close>

record ('s, 'a) librosa =
  decode :: "string \<Rightarrow> int \<Rightarrow> real \<Rightarrow> exn + 's \<times> int"
  mfcc :: "'s \<Rightarrow> int \<Rightarrow> int \<Rightarrow> exn + 'a matrix"

text \<open>\<^verbatim>\<open>librosa.load(path, sr=, duration=)\<close>: a path without a file raises.\<close>

definition librosa_load ::
  "('s, 'a) librosa \<Rightarrow> (string \<rightharpoonup> string) \<Rightarrow> string \<Rightarrow> int \<Rightarrow> real \<Rightarrow> exn + 's \<times> int" where
  "librosa_load lib fs file_path sr duration =
     (case fs file_path of
        None \<Rightarrow> Inl (Exn ''FileNotFoundError'' file_path)
      | Some bytes \<Rightarrow> decode lib bytes sr duration)"

text \<open>
  The \<^verbatim>\<open>if mfcc.shape[1] < max_pad_len: ... else: ...\<close> block of
  \<^verbatim>\<open>extract_features_from_path\<close>, which brings the matrix to its fixed length.
\<close>

definition pad_or_truncate :: "'a::zero matrix \<Rightarrow> int \<Rightarrow> 'a matrix" where
  "pad_or_truncate m max_pad_len =
     (if int (shape1 m) < max_pad_len
      then (let pad_width = max_pad_len - int (shape1 m)
            in np_pad_right m (nat pad_width))
      else slice_columns m max_pad_len)"

text \<open>The \<^verbatim>\<open>except Exception as e\<close> branch of \<^verbatim>\<open>extract_features_from_path\<close>.\<close>

definition extract_failed :: "exn \<Rightarrow> 'a world \<Rightarrow> 'a world" where
  "extract_failed e w = st (Error (''Error saat memproses file audio: '' @ exn_msg e)) w"

text \<open>
  \<^verbatim>\<open>extract_features_from_path(file_path, sr, n_mfcc, max_pad_len)\<close>. As in
  \<^verbatim>\<open>load_tflite_model\<close>, every exception of the body is caught and answered by
  \<open>None\<close>, so there is no \<open>Inl\<close> branch. (\<^verbatim>\<open>st.cache_data\<close> memoises the function on
  its arguments; the body is what runs for arguments not seen before.)
\<close>

definition extract_features_from_path ::
  "('s, 'a::zero) librosa \<Rightarrow> string \<Rightarrow> int \<Rightarrow> int \<Rightarrow> int \<Rightarrow> 'a world \<Rightarrow>
     (exn + 'a matrix option) \<times> 'a world" where
  "extract_features_from_path lib file_path sr n_mfcc max_pad_len w =
     (case librosa_load lib (files w) file_path sr 3 of
        Inl e \<Rightarrow> (Inr None, extract_failed e w)
      | Inr (audio, sample_rate) \<Rightarrow>
          (case mfcc lib audio sample_rate n_mfcc of
             Inl e \<Rightarrow> (Inr None, extract_failed e w)
           | Inr m \<Rightarrow> (Inr (Some (pad_or_truncate m max_pad_len)), w)))"

text \<open>The call of the page, \<^verbatim>\<open>extract_features_from_path(temp_path)\<close>, with the defaults.\<close>

definition extract_default :: "('s, 'a::zero) librosa \<Rightarrow> string \<Rightarrow> 'a world \<Rightarrow>
     (exn + 'a matrix option) \<times> 'a world" where
  "extract_default lib file_path w = extract_features_from_path lib file_path 22050 40 862 w"

subsection \<open>Inference\<close>

text \<open>
  \<^verbatim>\<open>run_tflite_inference(interpreter, input_data)\<close>: nothing is caught here, so every
  raise of the runtime and every failing subscript is an \<open>Inl\<close>. The result is row 0 of
  the output tensor, with the interpreter as \<^verbatim>\<open>invoke\<close> left it.
\<close>

definition run_tflite_inference ::
  "('i, 'a) tflite \<Rightarrow> 'i \<Rightarrow> 'a tensor4 \<Rightarrow> exn + 'a list \<times> 'i" where
  "run_tflite_inference tf interpreter input_data =
     (let input_details = get_input_details tf interpreter;
          output_details = get_output_details tf interpreter
      in case py_index input_details 0 of
           Inl e \<Rightarrow> Inl e
         | Inr input_index \<Rightarrow>
             (case set_tensor tf interpreter input_index input_data of
                Inl e \<Rightarrow> Inl e
              | Inr i1 \<Rightarrow>
                  (case invoke tf i1 of
                     Inl e \<Rightarrow> Inl e
                   | Inr i2 \<Rightarrow>
                       (case py_index output_details 0 of
                          Inl e \<Rightarrow> Inl e
                        | Inr output_index \<Rightarrow>
                            (case get_tensor tf i2 output_index of
                               Inl e \<Rightarrow> Inl e
                             | Inr output_data \<Rightarrow>
                                 (case py_index output_data 0 of
                                    Inl e \<Rightarrow> Inl e
                                  | Inr row \<Rightarrow> Inr (row, i2)))))))"

subsection \<open>The page\<close>

text \<open>\<^verbatim>\<open>os.remove(path)\<close>: raises when there is no such file.\<close>

definition os_remove :: "string \<Rightarrow> 'a world \<Rightarrow> exn + 'a world" where
  "os_remove path w =
     (case files w path of
        None \<Rightarrow> Inl (Exn ''FileNotFoundError'' path)
      | Some _ \<Rightarrow> Inr (w\<lparr>files := (files w)(path := None)\<rparr>))"

text \<open>
  A run of the script ends either at its last line or at an exception nobody catches:
  the result of the functions below is that exception, if any, and the world at that
  moment.

  \<open>show_results\<close> is the block under \<^verbatim>\<open>if features is not None\<close> after the inference
  call: the two columns. \<^verbatim>\<open>pd.DataFrame\<close> raises when its two columns differ in length.
\<close>

definition show_results ::
  "'a::linorder list \<Rightarrow> 'a world \<Rightarrow> exn option \<times> 'a world" where
  "show_results prediction w =
     (let w1 = st (Subheader ([CHR 0xF0, CHR 0x9F, CHR 0xA7, CHR 0xA0] @ '' Emosi Dominan'')) w
      in case np_argmax prediction of
           Inl e \<Rightarrow> (Some e, w1)
         | Inr idx_max \<Rightarrow>
             (case py_index EMOTION_LABELS idx_max of
                Inl e \<Rightarrow> (Some e, w1)
              | Inr emosi_dominan \<Rightarrow>
                  (case py_index prediction idx_max of
                     Inl e \<Rightarrow> (Some e, w1)
                   | Inr confidence \<Rightarrow>
                       (let w2 = st (Metric ''Emosi Terkuat Terdeteksi''
                                       (capitalize emosi_dominan) confidence) w1;
                            w3 = st (Markdown (''### '' @ [CHR 0xF0, CHR 0x9F, CHR 0x92, CHR 0xA1]
                                       @ '' Saran untuk Anda'')) w2;
                            feedback = get_feedback emosi_dominan;
                            w4 = st (Success feedback) w3;
                            w5 = st (Subheader ([CHR 0xF0, CHR 0x9F, CHR 0x93, CHR 0x88]
                                       @ '' Distribusi Emosi'')) w4
                        in if length prediction \<noteq> length EMOTION_LABELS
                           then (Some (Exn ''ValueError''
                                   ''All arrays must be of the same length''), w5)
                           else (None,
                                 st (BarChart (zip (map capitalize EMOTION_LABELS) prediction))
                                   w5)))))"

text \<open>
  What surrounds the script when it handles an upload, as far as the temporary file is
  concerned:
  \<^item> \<open>fp_write h temp_path audio_bytes\<close> is the outcome of lines 99 to 101, once
    \<^verbatim>\<open>tempfile.NamedTemporaryFile(delete=False, suffix='.wav')\<close> has created the file
    \<open>temp_path\<close>: \<open>None\<close> when \<^verbatim>\<open>fp.write\<close> and the close at the end of the
    \<^verbatim>\<open>with\<close> block succeed, \<open>Some (e, n)\<close> when one of them raises \<open>e\<close> after
    \<open>n\<close> bytes have reached the file (a full disk, say). The file was created with
    \<^verbatim>\<open>delete=False\<close>, so leaving the block does not remove it.
  \<^item> \<open>uncaught h temp_path\<close> is an exception raised during the call of line 103 that is
    not an \<^verbatim>\<open>Exception\<close>, if there is one: \<^verbatim>\<open>KeyboardInterrupt\<close>, or the stop or
    rerun that Streamlit raises from inside an \<^verbatim>\<open>st.*\<close> call such as the
    \<^verbatim>\<open>st.error\<close> of the handler. The handler \<^verbatim>\<open>except Exception\<close> of
    \<^verbatim>\<open>extract_features_from_path\<close> does not catch it, so it leaves the call.
\<close>

record host =
  fp_write :: "string \<Rightarrow> string \<Rightarrow> (exn \<times> nat) option"
  uncaught :: "string \<Rightarrow> exn option"

text \<open>
  \<open>analyse\<close> is the block under \<^verbatim>\<open>if audio_file is not None\<close>: the work done for one
  uploaded file. \<open>audio_bytes\<close> is \<^verbatim>\<open>audio_file.getvalue()\<close> and \<open>temp_path\<close> the name
  that \<^verbatim>\<open>tempfile.NamedTemporaryFile\<close> picks. Nothing in the block is wrapped in
  \<^verbatim>\<open>try\<close>: an exception raised by the write, by the call of line 103, by
  \<^verbatim>\<open>os.remove\<close>, by the inference or by the display ends the run where it is raised.
  The interpreter state that the inference returns is not used again in the run.
\<close>

definition analyse ::
  "host \<Rightarrow> ('i, 'a) tflite \<Rightarrow> ('s, 'a::{zero,linorder}) librosa \<Rightarrow> 'i \<Rightarrow> string \<Rightarrow> string \<Rightarrow>
     'a world \<Rightarrow> exn option \<times> 'a world" where
  "analyse h tf lib interpreter audio_bytes temp_path w =
     (let w1 = st (Header ''Hasil Analisis'') w;
          w2 = st (Audio audio_bytes) w1;
          w3 = st (Spinner (''Menganalisis dengan kecepatan kilat... ''
                     @ [CHR 0xE2, CHR 0x9A, CHR 0xA1])) w2
      in case fp_write h temp_path audio_bytes of
           Some (e, n) \<Rightarrow>
             (Some e, w3\<lparr>files := (files w3)(temp_path \<mapsto> take n audio_bytes)\<rparr>)
         | None \<Rightarrow>
             (let w4 = w3\<lparr>files := (files w3)(temp_path \<mapsto> audio_bytes)\<rparr>
              in case uncaught h temp_path of
                   Some e \<Rightarrow> (Some e, w4)
                 | None \<Rightarrow>
                     (case extract_default lib temp_path w4 of
                        (Inl e, w5) \<Rightarrow> (Some e, w5)
                      | (Inr features, w5) \<Rightarrow>
                          (case os_remove temp_path w5 of
                             Inl e \<Rightarrow> (Some e, w5)
                           | Inr w6 \<Rightarrow>
                               (case features of
                                  None \<Rightarrow> (None, w6)
                                | Some f \<Rightarrow>
                                    (let input_data = expand_dims f;
                                         w7 = w6\<lparr>inferences := inferences w6 + 1\<rparr>
                                     in case run_tflite_inference tf interpreter input_data of
                                          Inl e \<Rightarrow> (Some e, w7)
                                        | Inr (prediction, _) \<Rightarrow>
                                            show_results prediction w7))))))"

text \<open>
  \<open>page_header\<close> is what the script shows between loading the model and looking at the
  result of the load: title, introduction and the sidebar with the uploader.
\<close>

definition page_header :: "'a world \<Rightarrow> 'a world" where
  "page_header w =
     (let w1 = st (Title ([CHR 0xE2, CHR 0x9A, CHR 0xA1] @ '' AI Public Speaking Coach'')) w;
          w2 = st (Markdown ''Aplikasi ini sudah dioptimalkan untuk analisis yang lebih cepat menggunakan TensorFlow Lite.'') w1;
          w3 = st (SidebarHeader ''Upload Audio Anda'') w2;
          w4 = st (SidebarFileUploader ''Pilih file audio (.wav)'') w3;
          w5 = st (SidebarMarkdown ''---'') w4
      in st (SidebarMarkdown ''Crafted with by **Raihan & Reynanda**'') w5)"

text \<open>
  \<open>page\<close> is the script from \<^verbatim>\<open>interpreter = load_tflite_model()\<close> to its end.
  \<open>audio_file\<close> is what the uploader returns: \<open>None\<close>, or the bytes of the uploaded file.
\<close>

definition page ::
  "host \<Rightarrow> ('i, 'a) tflite \<Rightarrow> ('s, 'a::{zero,linorder}) librosa \<Rightarrow> string option \<Rightarrow>
     string \<Rightarrow> 'a world \<Rightarrow> exn option \<times> 'a world" where
  "page h tf lib audio_file temp_path w =
     (case load_tflite_model tf w of
        (Inl e, w1) \<Rightarrow> (Some e, w1)
      | (Inr interpreter, w1) \<Rightarrow>
          (let w2 = page_header w1
           in case interpreter of
                None \<Rightarrow>
                  (None, st (Warning ''Aplikasi belum siap. Model TFLite tidak dapat dimuat.'') w2)
              | Some i \<Rightarrow>
                  (case audio_file of
                     None \<Rightarrow>
                       (None, st (Info ''Silakan upload file audio untuk memulai analisis.'') w2)
                   | Some audio_bytes \<Rightarrow> analyse h tf lib i audio_bytes temp_path w2)))"

subsection \<open>Stand-ins for the libraries\<close>

text \<open>
  Small concrete libraries on which the theorems below are instantiated. The stand-in for
  librosa refuses an empty file, reads one sample per byte otherwise, and gives every
  coefficient one frame per sample. The stand-in for the runtime keeps the input tensor
  and the output tensor; its model answers every input with the same eight numbers, the
  second and third of which tie for the maximum. A second runtime holds a model of three
  classes. The hosts: one on which writing never fails and nothing escapes the handler,
  one with a full disk, one that asks for a rerun while the features are extracted.
\<close>

definition toy_librosa :: "(real list, real) librosa" where
  "toy_librosa =
     \<lparr>decode = (\<lambda>bytes sr duration.
         if bytes = [] then Inl (Exn ''EOFError'' ''file is empty'')
         else Inr (map (\<lambda>c. real (of_char c)) bytes, sr)),
      mfcc = (\<lambda>y sr n_mfcc. Inr (replicate (nat n_mfcc) y))\<rparr>"

definition toy_output :: "real list" where
  "toy_output = [1/10, 3/10, 3/10, 1/10, 1/20, 1/20, 1/20, 1/20]"

definition toy_tflite :: "(real tensor4 option \<times> real matrix, real) tflite" where
  "toy_tflite =
     \<lparr>Interpreter = (\<lambda>path. Inr (None, [])),
      allocate_tensors = (\<lambda>i. Inr i),
      get_input_details = (\<lambda>i. [0]),
      get_output_details = (\<lambda>i. [1]),
      set_tensor = (\<lambda>i k x. Inr (Some x, snd i)),
      invoke = (\<lambda>i. case fst i of
                  None \<Rightarrow> Inl (Exn ''RuntimeError'' ''no input'')
                | Some x \<Rightarrow> Inr (fst i, [toy_output])),
      get_tensor = (\<lambda>i k. Inr (snd i))\<rparr>"

definition missing_tflite :: "(real tensor4 option \<times> real matrix, real) tflite" where
  "missing_tflite =
     toy_tflite\<lparr>Interpreter := (\<lambda>path. Inl (Exn ''ValueError'' (''Could not open '' @ path)))\<rparr>"

definition blank :: "real world" where
  "blank = \<lparr>files = Map.empty, screen = [], inferences = 0\<rparr>"

definition three_class_tflite :: "(real tensor4 option \<times> real matrix, real) tflite" where
  "three_class_tflite =
     toy_tflite\<lparr>invoke := (\<lambda>i. case fst i of
                  None \<Rightarrow> Inl (Exn ''RuntimeError'' ''no input'')
                | Some x \<Rightarrow> Inr (fst i, [[1/2, 1/4, 1/4]]))\<rparr>"

definition quiet_host :: host where
  "quiet_host = \<lparr>fp_write = (\<lambda>path bytes. None), uncaught = (\<lambda>path. None)\<rparr>"

definition full_disk_host :: host where
  "full_disk_host =
     quiet_host\<lparr>fp_write :=
       (\<lambda>path bytes. Some (Exn ''OSError'' ''[Errno 28] No space left on device'', 0))\<rparr>"

definition rerun_host :: host where
  "rerun_host = quiet_host\<lparr>uncaught := (\<lambda>path. Some (Exn ''RerunException'' ''rerun''))\<rparr>"

section \<open>Properties\<close>

subsection \<open>The label list\<close>

lemma EMOTION_LABELS_eq:
  "EMOTION_LABELS =
     [''angry'', ''calm'', ''disgust'', ''fearful'', ''happy'', ''neutral'', ''sad'',
      ''surprised'']"
  unfolding EMOTION_LABELS_def by simp

lemma length_EMOTION_LABELS: "length EMOTION_LABELS = 8"
  by (simp add: EMOTION_LABELS_eq)

lemma dom_feedback_dict: "dom (map_of feedback_dict) = set EMOTION_LABELS"
  by (auto simp: EMOTION_LABELS_eq feedback_dict_def dom_map_of_conv_image_fst)

lemma get_feedback_unknown:
  "label \<notin> set EMOTION_LABELS \<Longrightarrow> get_feedback label = fallback_feedback"
proof -
  assume "label \<notin> set EMOTION_LABELS"
  then have "map_of feedback_dict label = None"
    using dom_feedback_dict by blast
  then show ?thesis by (simp add: get_feedback_def)
qed

lemma get_feedback_nonempty:
  "label \<in> set EMOTION_LABELS \<Longrightarrow> get_feedback label \<noteq> []"
  by (auto simp: EMOTION_LABELS_eq get_feedback_def feedback_dict_def)

lemma get_feedback_distinct: "distinct (map get_feedback EMOTION_LABELS)"
  by (simp add: EMOTION_LABELS_eq get_feedback_def feedback_dict_def)

subsection \<open>The fixed shape of the feature matrix\<close>

lemma shape1_has_shape: "has_shape r c m \<Longrightarrow> 0 < r \<Longrightarrow> shape1 m = c"
  by (cases m) (auto simp: has_shape_def shape1_def)

lemma has_shape_pad:
  "has_shape r c m \<Longrightarrow> has_shape r (c + w) (np_pad_right m w)"
  by (auto simp: has_shape_def np_pad_right_def list_all_iff)

lemma has_shape_slice:
  "has_shape r c m \<Longrightarrow> 0 \<le> k \<Longrightarrow> nat k \<le> c \<Longrightarrow> has_shape r (nat k) (slice_columns m k)"
  by (auto simp: has_shape_def slice_columns_def py_slice_to_def list_all_iff)

lemma pad_or_truncate_no_rows: "pad_or_truncate [] k = []"
  by (simp add: pad_or_truncate_def np_pad_right_def slice_columns_def)

lemma pad_or_truncate_short:
  assumes "has_shape r c m" and "0 < r" and "int c < k"
  shows "pad_or_truncate m k = np_pad_right m (nat k - c)"
proof -
  have "shape1 m = c" using assms(1,2) by (rule shape1_has_shape)
  moreover have "nat (k - int c) = nat k - c" by simp
  ultimately show ?thesis using assms(3) by (simp add: pad_or_truncate_def)
qed

lemma pad_or_truncate_long:
  assumes "has_shape r c m" and "0 < r" and "0 \<le> k" and "k \<le> int c"
  shows "pad_or_truncate m k = map (take (nat k)) m"
proof -
  have "shape1 m = c" using assms(1,2) by (rule shape1_has_shape)
  then show ?thesis
    using assms(3,4) by (simp add: pad_or_truncate_def slice_columns_def py_slice_to_def)
qed

lemma has_shape_pad_or_truncate:
  assumes "has_shape r c m" and "0 \<le> k"
  shows "has_shape r (nat k) (pad_or_truncate m k)"
proof (cases "r = 0")
  case True
  then have "m = []" using assms(1) by (simp add: has_shape_def)
  then show ?thesis using True by (simp add: pad_or_truncate_no_rows has_shape_def)
next
  case False
  then have r: "0 < r" by simp
  show ?thesis
  proof (cases "int c < k")
    case True
    have "has_shape r (c + (nat k - c)) (np_pad_right m (nat k - c))"
      using assms(1) by (rule has_shape_pad)
    moreover have "c + (nat k - c) = nat k" using True by arith
    ultimately show ?thesis using pad_or_truncate_short[OF assms(1) r True] by simp
  next
    case False
    then have le: "k \<le> int c" by simp
    then have "nat k \<le> c" by arith
    then have "has_shape r (nat k) (slice_columns m k)"
      using assms by (intro has_shape_slice[of r c])
    moreover have "slice_columns m k = map (take (nat k)) m"
      using assms(2) by (simp add: slice_columns_def py_slice_to_def)
    ultimately show ?thesis using pad_or_truncate_long[OF assms(1) r assms(2) le] by simp
  qed
qed

lemma extract_ok:
  assumes "librosa_load lib (files w) file_path sr 3 = Inr (y, sample_rate)"
    and "mfcc lib y sample_rate n_mfcc = Inr m"
  shows "extract_features_from_path lib file_path sr n_mfcc max_pad_len w =
           (Inr (Some (pad_or_truncate m max_pad_len)), w)"
  using assms by (simp add: extract_features_from_path_def)

text \<open>
  C1. Whenever librosa decodes the file and returns an MFCC matrix of 40 rows, of
  whatever number \<open>T\<close> of frames, the call of the page returns a matrix of shape
  exactly (40, 862).
\<close>

theorem extract_shape:
  assumes "librosa_load lib (files w) file_path 22050 3 = Inr (y, sample_rate)"
    and "mfcc lib y sample_rate 40 = Inr m"
    and "has_shape 40 T m"
  shows "extract_default lib file_path w = (Inr (Some (pad_or_truncate m 862)), w)
           \<and> has_shape 40 862 (pad_or_truncate m 862)"
proof -
  have "has_shape 40 (nat 862) (pad_or_truncate m 862)"
    using assms(3) by (rule has_shape_pad_or_truncate) simp
  then show ?thesis
    using extract_ok[OF assms(1,2), of 862] by (simp add: extract_default_def)
qed

theorem extract_shape_witness:
  "extract_default toy_librosa ''/tmp/tmpk2v9.wav''
       (blank\<lparr>files := [''/tmp/tmpk2v9.wav'' \<mapsto> ''RIFF'']\<rparr>) =
     (Inr (Some (pad_or_truncate (replicate 40 [82, 73, 70, 70]) 862)),
      blank\<lparr>files := [''/tmp/tmpk2v9.wav'' \<mapsto> ''RIFF'']\<rparr>)
   \<and> has_shape 40 862 (pad_or_truncate (replicate 40 [82, 73, 70, 70 :: real]) 862)"
proof -
  let ?w = "blank\<lparr>files := [''/tmp/tmpk2v9.wav'' \<mapsto> ''RIFF'']\<rparr>"
  have a: "librosa_load toy_librosa (files ?w) ''/tmp/tmpk2v9.wav'' 22050 3 =
             Inr ([82, 73, 70, 70], 22050)"
    by (simp add: librosa_load_def toy_librosa_def)
  have b: "mfcc toy_librosa [82, 73, 70, 70] 22050 40 = Inr (replicate 40 [82, 73, 70, 70])"
    by (simp add: toy_librosa_def)
  have c: "has_shape 40 4 (replicate 40 [82, 73, 70, 70 :: real])"
    by (simp add: has_shape_def list_all_iff)
  from extract_shape[OF a b c] show ?thesis .
qed

text \<open>
  C5. When the MFCC matrix has fewer than \<open>max_pad_len\<close> frames, every row of the
  result has \<open>max_pad_len\<close> cells: the row of the MFCC matrix, unchanged, followed by
  zeros only.
\<close>

theorem extract_pads_short:
  assumes "librosa_load lib (files w) file_path sr 3 = Inr (y, sample_rate)"
    and "mfcc lib y sample_rate n_mfcc = Inr m"
    and "has_shape n T m"
    and "int T < max_pad_len"
  shows "extract_features_from_path lib file_path sr n_mfcc max_pad_len w =
             (Inr (Some (pad_or_truncate m max_pad_len)), w)
           \<and> has_shape n (nat max_pad_len) (pad_or_truncate m max_pad_len)
           \<and> (\<forall>i<n. take T (pad_or_truncate m max_pad_len ! i) = m ! i
                    \<and> drop T (pad_or_truncate m max_pad_len ! i) =
                        replicate (nat max_pad_len - T) 0)"
proof -
  have k: "0 \<le> max_pad_len" using assms(4) by simp
  have rows: "\<forall>i<n. take T (pad_or_truncate m max_pad_len ! i) = m ! i
                    \<and> drop T (pad_or_truncate m max_pad_len ! i) =
                        replicate (nat max_pad_len - T) 0"
  proof (intro allI impI)
    fix i assume i: "i < n"
    then have "0 < n" by simp
    then have p: "pad_or_truncate m max_pad_len = np_pad_right m (nat max_pad_len - T)"
      using assms(3,4) by (intro pad_or_truncate_short[of n T])
    have "i < length m" "length (m ! i) = T"
      using assms(3) i by (auto simp: has_shape_def list_all_length)
    then show "take T (pad_or_truncate m max_pad_len ! i) = m ! i
                 \<and> drop T (pad_or_truncate m max_pad_len ! i) =
                     replicate (nat max_pad_len - T) 0"
      by (simp add: p np_pad_right_def)
  qed
  show ?thesis
    using extract_ok[OF assms(1,2)] has_shape_pad_or_truncate[OF assms(3) k] rows by blast
qed

theorem extract_pads_short_witness:
  "extract_features_from_path toy_librosa ''/tmp/tmpk2v9.wav'' 22050 2 6
       (blank\<lparr>files := [''/tmp/tmpk2v9.wav'' \<mapsto> ''RIFF'']\<rparr>) =
     (Inr (Some [[82, 73, 70, 70, 0, 0], [82, 73, 70, 70, 0, 0]]),
      blank\<lparr>files := [''/tmp/tmpk2v9.wav'' \<mapsto> ''RIFF'']\<rparr>)
   \<and> take 4 (pad_or_truncate [[82, 73, 70, 70], [82, 73, 70, 70 :: real]] 6 ! 1) = [82, 73, 70, 70]
   \<and> drop 4 (pad_or_truncate [[82, 73, 70, 70], [82, 73, 70, 70 :: real]] 6 ! 1) = [0, 0]"
proof -
  let ?w = "blank\<lparr>files := [''/tmp/tmpk2v9.wav'' \<mapsto> ''RIFF'']\<rparr>"
  let ?m = "[[82, 73, 70, 70], [82, 73, 70, 70 :: real]]"
  have a: "librosa_load toy_librosa (files ?w) ''/tmp/tmpk2v9.wav'' 22050 3 =
             Inr ([82, 73, 70, 70], 22050)"
    by (simp add: librosa_load_def toy_librosa_def)
  have b: "mfcc toy_librosa [82, 73, 70, 70] 22050 2 = Inr ?m"
    by (simp add: toy_librosa_def numeral_2_eq_2)
  have c: "has_shape 2 4 ?m"
    by (simp add: has_shape_def)
  have d: "int 4 < 6" by simp
  have e: "pad_or_truncate ?m 6 = [[82, 73, 70, 70, 0, 0], [82, 73, 70, 70, 0, 0]]"
    by (simp add: pad_or_truncate_def shape1_def np_pad_right_def numeral_2_eq_2)
  from extract_pads_short[OF a b c d] have
    "extract_features_from_path toy_librosa ''/tmp/tmpk2v9.wav'' 22050 2 6 ?w =
       (Inr (Some (pad_or_truncate ?m 6)), ?w)"
    and "\<forall>i<2. take 4 (pad_or_truncate ?m 6 ! i) = ?m ! i
           \<and> drop 4 (pad_or_truncate ?m 6 ! i) = replicate (nat 6 - 4) 0"
    by blast+
  then show ?thesis by (simp add: e numeral_2_eq_2)
qed

text \<open>
  C6. When the MFCC matrix has more than \<open>max_pad_len\<close> frames (a frame count, so not
  negative), every row of the result is the first \<open>max_pad_len\<close> cells of the row of the
  MFCC matrix, in their order.
\<close>

theorem extract_truncates_long:
  assumes "librosa_load lib (files w) file_path sr 3 = Inr (y, sample_rate)"
    and "mfcc lib y sample_rate n_mfcc = Inr m"
    and "has_shape n T m"
    and "0 \<le> max_pad_len" and "max_pad_len < int T"
  shows "extract_features_from_path lib file_path sr n_mfcc max_pad_len w =
             (Inr (Some (pad_or_truncate m max_pad_len)), w)
           \<and> has_shape n (nat max_pad_len) (pad_or_truncate m max_pad_len)
           \<and> pad_or_truncate m max_pad_len = map (take (nat max_pad_len)) m
           \<and> (\<forall>i<n. \<forall>j<nat max_pad_len. pad_or_truncate m max_pad_len ! i ! j = m ! i ! j)"
proof -
  have eq: "pad_or_truncate m max_pad_len = map (take (nat max_pad_len)) m"
  proof (cases "n = 0")
    case True
    then have "m = []" using assms(3) by (simp add: has_shape_def)
    then show ?thesis by (simp add: pad_or_truncate_no_rows)
  next
    case False
    then have "0 < n" by simp
    moreover have "max_pad_len \<le> int T" using assms(5) by simp
    ultimately show ?thesis using assms(3,4) by (intro pad_or_truncate_long[of n T])
  qed
  have "\<forall>i<n. \<forall>j<nat max_pad_len. pad_or_truncate m max_pad_len ! i ! j = m ! i ! j"
    using assms(3) by (auto simp: eq has_shape_def)
  then show ?thesis
    using extract_ok[OF assms(1,2)] has_shape_pad_or_truncate[OF assms(3,4)] eq by blast
qed

theorem extract_truncates_long_witness:
  "extract_features_from_path toy_librosa ''/tmp/tmpk2v9.wav'' 22050 2 3
       (blank\<lparr>files := [''/tmp/tmpk2v9.wav'' \<mapsto> ''RIFF'']\<rparr>) =
     (Inr (Some [[82, 73, 70], [82, 73, 70]]),
      blank\<lparr>files := [''/tmp/tmpk2v9.wav'' \<mapsto> ''RIFF'']\<rparr>)"
proof -
  let ?w = "blank\<lparr>files := [''/tmp/tmpk2v9.wav'' \<mapsto> ''RIFF'']\<rparr>"
  let ?m = "[[82, 73, 70, 70], [82, 73, 70, 70 :: real]]"
  have a: "librosa_load toy_librosa (files ?w) ''/tmp/tmpk2v9.wav'' 22050 3 =
             Inr ([82, 73, 70, 70], 22050)"
    by (simp add: librosa_load_def toy_librosa_def)
  have b: "mfcc toy_librosa [82, 73, 70, 70] 22050 2 = Inr ?m"
    by (simp add: toy_librosa_def numeral_2_eq_2)
  have c: "has_shape 2 4 ?m"
    by (simp add: has_shape_def)
  have d: "(0::int) \<le> 3" "3 < int 4" by simp_all
  from extract_truncates_long[OF a b c d] have
    "extract_features_from_path toy_librosa ''/tmp/tmpk2v9.wav'' 22050 2 3 ?w =
       (Inr (Some (pad_or_truncate ?m 3)), ?w)"
    and "pad_or_truncate ?m 3 = map (take (nat 3)) ?m"
    by blast+
  then show ?thesis by (simp add: numeral_3_eq_3)
qed

subsection \<open>The advisory texts\<close>

text \<open>
  C8. \<open>get_feedback\<close> is a function of its argument alone. Each of the 8 labels has an
  entry of the dictionary, which is what \<open>get_feedback\<close> returns and is not empty; the 8
  texts are pairwise distinct; every other string gets the fallback text.
\<close>

theorem get_feedback_total:
  "(\<forall>label \<in> set EMOTION_LABELS.
       map_of feedback_dict label = Some (get_feedback label) \<and> get_feedback label \<noteq> [])
   \<and> length EMOTION_LABELS = 8
   \<and> distinct (map get_feedback EMOTION_LABELS)
   \<and> (\<forall>label. label \<notin> set EMOTION_LABELS \<longrightarrow> get_feedback label = fallback_feedback)"
proof -
  have "\<forall>label \<in> set EMOTION_LABELS. map_of feedback_dict label = Some (get_feedback label)"
  proof
    fix label assume "label \<in> set EMOTION_LABELS"
    then have "label \<in> dom (map_of feedback_dict)" by (simp add: dom_feedback_dict)
    then show "map_of feedback_dict label = Some (get_feedback label)"
      by (auto simp: get_feedback_def)
  qed
  then show ?thesis
    using get_feedback_nonempty length_EMOTION_LABELS get_feedback_distinct get_feedback_unknown
    by blast
qed

theorem get_feedback_total_witness:
  "''happy'' \<in> set EMOTION_LABELS
   \<and> get_feedback ''happy'' =
       [CHR 0xF0, CHR 0x9F, CHR 0x98, CHR 0x8A] @ '' Bagus! Suaramu terdengar menyenangkan dan bersemangat. Energi positif seperti ini sangat menular ke audiens. Pertahankan!''
   \<and> get_feedback ''happy'' \<noteq> []
   \<and> ''bored'' \<notin> set EMOTION_LABELS
   \<and> get_feedback ''bored'' = ''Latih lagi artikulasi dan emosi agar lebih meyakinkan.''"
proof -
  have a: "''happy'' \<in> set EMOTION_LABELS" by (simp add: EMOTION_LABELS_eq)
  have b: "''bored'' \<notin> set EMOTION_LABELS" by (simp add: EMOTION_LABELS_eq)
  have c: "map_of feedback_dict ''happy'' =
       Some ([CHR 0xF0, CHR 0x9F, CHR 0x98, CHR 0x8A] @ '' Bagus! Suaramu terdengar menyenangkan dan bersemangat. Energi positif seperti ini sangat menular ke audiens. Pertahankan!'')"
    by (simp add: feedback_dict_def)
  from get_feedback_total a b have
    "map_of feedback_dict ''happy'' = Some (get_feedback ''happy'')"
    "get_feedback ''happy'' \<noteq> []"
    "get_feedback ''bored'' = fallback_feedback"
    by blast+
  then show ?thesis using a b c by (simp add: fallback_feedback_def)
qed

subsection \<open>The dominant label\<close>

lemma argmax_scan_spec:
  "(argmax_scan xs i bi b = bi \<and> (\<forall>x\<in>set xs. x \<le> b))
   \<or> (\<exists>k<length xs. argmax_scan xs i bi b = i + k \<and> b < xs ! k
         \<and> (\<forall>j<k. xs ! j < xs ! k) \<and> (\<forall>j<length xs. xs ! j \<le> xs ! k))"
proof (induction xs arbitrary: i bi b)
  case Nil
  then show ?case by simp
next
  case (Cons x xs)
  show ?case
  proof (cases "b < x")
    case True
    from Cons.IH[of "Suc i" i x]
    show ?thesis
    proof
      assume h: "argmax_scan xs (Suc i) i x = i \<and> (\<forall>y\<in>set xs. y \<le> x)"
      have "0 < length (x # xs) \<and> argmax_scan (x # xs) i bi b = i + 0 \<and> b < (x # xs) ! 0
         \<and> (\<forall>j<0. (x # xs) ! j < (x # xs) ! 0)
         \<and> (\<forall>j<length (x # xs). (x # xs) ! j \<le> (x # xs) ! 0)"
        using h True by (auto simp: nth_Cons split: nat.splits)
      then show ?thesis by blast
    next
      assume "\<exists>k<length xs. argmax_scan xs (Suc i) i x = Suc i + k \<and> x < xs ! k
         \<and> (\<forall>j<k. xs ! j < xs ! k) \<and> (\<forall>j<length xs. xs ! j \<le> xs ! k)"
      then obtain k where k: "k < length xs" "argmax_scan xs (Suc i) i x = Suc i + k"
         "x < xs ! k" "\<forall>j<k. xs ! j < xs ! k" "\<forall>j<length xs. xs ! j \<le> xs ! k"
        by blast
      have "Suc k < length (x # xs) \<and> argmax_scan (x # xs) i bi b = i + Suc k
         \<and> b < (x # xs) ! Suc k
         \<and> (\<forall>j<Suc k. (x # xs) ! j < (x # xs) ! Suc k)
         \<and> (\<forall>j<length (x # xs). (x # xs) ! j \<le> (x # xs) ! Suc k)"
        using k True by (auto simp: nth_Cons split: nat.splits)
      then show ?thesis by blast
    qed
  next
    case False
    from Cons.IH[of "Suc i" bi b]
    show ?thesis
    proof
      assume "argmax_scan xs (Suc i) bi b = bi \<and> (\<forall>y\<in>set xs. y \<le> b)"
      then show ?thesis using False by auto
    next
      assume "\<exists>k<length xs. argmax_scan xs (Suc i) bi b = Suc i + k \<and> b < xs ! k
         \<and> (\<forall>j<k. xs ! j < xs ! k) \<and> (\<forall>j<length xs. xs ! j \<le> xs ! k)"
      then obtain k where k: "k < length xs" "argmax_scan xs (Suc i) bi b = Suc i + k"
         "b < xs ! k" "\<forall>j<k. xs ! j < xs ! k" "\<forall>j<length xs. xs ! j \<le> xs ! k"
        by blast
      have "Suc k < length (x # xs) \<and> argmax_scan (x # xs) i bi b = i + Suc k
         \<and> b < (x # xs) ! Suc k
         \<and> (\<forall>j<Suc k. (x # xs) ! j < (x # xs) ! Suc k)
         \<and> (\<forall>j<length (x # xs). (x # xs) ! j \<le> (x # xs) ! Suc k)"
        using k False by (auto simp: nth_Cons split: nat.splits)
      then show ?thesis by blast
    qed
  qed
qed

text \<open>
  On a vector that is not empty, \<open>np_argmax\<close> returns an index of the vector whose entry
  is a maximum and strictly greater than every entry before it.
\<close>

lemma np_argmax_first_max:
  assumes "xs \<noteq> []"
  shows "\<exists>r. np_argmax xs = Inr r \<and> r < length xs \<and> (\<forall>j<length xs. xs ! j \<le> xs ! r)
           \<and> (\<forall>j<r. xs ! j < xs ! r)"
proof -
  from assms obtain x rest where xs: "xs = x # rest" by (cases xs) auto
  from argmax_scan_spec[of rest 1 0 x]
  show ?thesis
  proof
    assume h: "argmax_scan rest 1 0 x = 0 \<and> (\<forall>y\<in>set rest. y \<le> x)"
    then have "np_argmax xs = Inr 0" by (simp add: np_argmax_def xs)
    moreover have "\<forall>j<length xs. xs ! j \<le> xs ! 0"
      using h by (auto simp: xs nth_Cons split: nat.splits)
    ultimately show ?thesis by (auto simp: xs)
  next
    assume "\<exists>k<length rest. argmax_scan rest 1 0 x = 1 + k \<and> x < rest ! k
         \<and> (\<forall>j<k. rest ! j < rest ! k) \<and> (\<forall>j<length rest. rest ! j \<le> rest ! k)"
    then obtain k where k: "k < length rest" "argmax_scan rest 1 0 x = 1 + k" "x < rest ! k"
         "\<forall>j<k. rest ! j < rest ! k" "\<forall>j<length rest. rest ! j \<le> rest ! k" by blast
    have "np_argmax xs = Inr (Suc k)" using k by (simp add: np_argmax_def xs)
    moreover have "\<forall>j<length xs. xs ! j \<le> xs ! Suc k"
      using k by (auto simp: xs nth_Cons split: nat.splits)
    moreover have "\<forall>j<Suc k. xs ! j < xs ! Suc k"
      using k by (auto simp: xs nth_Cons split: nat.splits)
    ultimately show ?thesis using k(1) by (auto simp: xs)
  qed
qed

subsection \<open>Failures that are caught\<close>

lemma files_st: "files (st wd w) = files w"
  by (simp add: st_def)

lemma inferences_st: "inferences (st wd w) = inferences w"
  by (simp add: st_def)

lemma files_page_header: "files (page_header w) = files w"
  by (simp add: page_header_def files_st)

lemma inferences_page_header: "inferences (page_header w) = inferences w"
  by (simp add: page_header_def inferences_st)

lemma extract_returns:
  "\<exists>r scr. extract_features_from_path lib file_path sr n_mfcc max_pad_len w =
             (Inr r, w\<lparr>screen := scr\<rparr>)"
proof (cases "librosa_load lib (files w) file_path sr 3")
  case (Inl e)
  then have "extract_features_from_path lib file_path sr n_mfcc max_pad_len w =
               (Inr None, w\<lparr>screen := screen w @ [Error (''Error saat memproses file audio: '' @ exn_msg e)]\<rparr>)"
    by (simp add: extract_features_from_path_def extract_failed_def st_def)
  then show ?thesis by blast
next
  case (Inr a)
  obtain y sample_rate where a: "a = (y, sample_rate)" by (cases a)
  show ?thesis
  proof (cases "mfcc lib y sample_rate n_mfcc")
    case (Inl e)
    then have "extract_features_from_path lib file_path sr n_mfcc max_pad_len w =
               (Inr None, w\<lparr>screen := screen w @ [Error (''Error saat memproses file audio: '' @ exn_msg e)]\<rparr>)"
      using Inr a by (simp add: extract_features_from_path_def extract_failed_def st_def)
    then show ?thesis by blast
  next
    case (Inr m)
    then have "extract_features_from_path lib file_path sr n_mfcc max_pad_len w =
               (Inr (Some (pad_or_truncate m max_pad_len)), w\<lparr>screen := screen w\<rparr>)"
      using \<open>librosa_load lib (files w) file_path sr 3 = Inr a\<close> a
      by (simp add: extract_features_from_path_def)
    then show ?thesis by blast
  qed
qed

text \<open>
  C3, as the script has it. The claim that the function fails with an exception and
  returns no value does not hold: on a file of zero bytes the call returns, and what it
  returns is \<open>None\<close>.
\<close>

theorem extract_zero_byte_file_returns_None:
  "fst (extract_default toy_librosa ''/tmp/tmpk2v9.wav''
          (blank\<lparr>files := [''/tmp/tmpk2v9.wav'' \<mapsto> '''']\<rparr>)) = Inr None"
  by (simp add: extract_default_def extract_features_from_path_def librosa_load_def
        toy_librosa_def blank_def)

text \<open>
  C3, amended. When librosa cannot decode the source, or cannot compute the MFCC matrix,
  \<open>extract_features_from_path\<close> raises nothing: it shows one error widget carrying the
  text of the exception and returns \<open>None\<close>, so no feature matrix, whole or partial,
  reaches the caller; files and the rest of the world are as before.
\<close>

theorem extract_failure_returns_None:
  assumes "librosa_load lib (files w) file_path sr 3 = Inl e
           \<or> (\<exists>y sample_rate. librosa_load lib (files w) file_path sr 3 = Inr (y, sample_rate)
                 \<and> mfcc lib y sample_rate n_mfcc = Inl e)"
  shows "extract_features_from_path lib file_path sr n_mfcc max_pad_len w =
           (Inr None,
            w\<lparr>screen := screen w @ [Error (''Error saat memproses file audio: '' @ exn_msg e)]\<rparr>)"
  using assms
  by (auto simp: extract_features_from_path_def extract_failed_def st_def)

theorem extract_failure_returns_None_witness:
  "extract_features_from_path toy_librosa ''/tmp/tmpk2v9.wav'' 22050 40 862
       (blank\<lparr>files := [''/tmp/tmpk2v9.wav'' \<mapsto> '''']\<rparr>) =
     (Inr None,
      \<lparr>files = [''/tmp/tmpk2v9.wav'' \<mapsto> ''''],
       screen = [Error ''Error saat memproses file audio: file is empty''],
       inferences = 0\<rparr>)"
proof -
  let ?w = "blank\<lparr>files := [''/tmp/tmpk2v9.wav'' \<mapsto> '''']\<rparr>"
  have "librosa_load toy_librosa (files ?w) ''/tmp/tmpk2v9.wav'' 22050 3 =
          Inl (Exn ''EOFError'' ''file is empty'')"
    by (simp add: librosa_load_def toy_librosa_def)
  then have "librosa_load toy_librosa (files ?w) ''/tmp/tmpk2v9.wav'' 22050 3 =
          Inl (Exn ''EOFError'' ''file is empty'')
           \<or> (\<exists>y sample_rate. librosa_load toy_librosa (files ?w) ''/tmp/tmpk2v9.wav'' 22050 3 =
                  Inr (y, sample_rate)
                 \<and> mfcc toy_librosa y sample_rate 40 = Inl (Exn ''EOFError'' ''file is empty''))"
    by (rule disjI1)
  from extract_failure_returns_None[OF this, of 862] show ?thesis
    by (simp add: blank_def)
qed

text \<open>
  C4, as the script has it. The claim that loading fails with an exception does not hold:
  with no model artifact the call returns, and what it returns is \<open>None\<close>.
\<close>

theorem load_missing_model_returns_None:
  "fst (load_tflite_model missing_tflite blank) = Inr None"
  by (simp add: load_tflite_model_def missing_tflite_def toy_tflite_def)

text \<open>
  C4, amended. When the runtime cannot construct the interpreter from the artifact, or
  cannot allocate its tensors, \<open>load_tflite_model\<close> raises nothing: it shows the error
  and a hint and returns \<open>None\<close>. The page then shows its header and a warning and ends
  without an exception; whether or not a file has been uploaded, no temporary file is
  written and no inference is run.
\<close>

theorem load_failure_blocks_page:
  assumes "Interpreter tf TFLITE_MODEL_PATH = Inl e
           \<or> (\<exists>i. Interpreter tf TFLITE_MODEL_PATH = Inr i \<and> allocate_tensors tf i = Inl e)"
  shows "load_tflite_model tf w = (Inr None, load_failed e w)
         \<and> page h tf lib audio_file temp_path w =
             (None, st (Warning ''Aplikasi belum siap. Model TFLite tidak dapat dimuat.'')
                      (page_header (load_failed e w)))
         \<and> files (snd (page h tf lib audio_file temp_path w)) = files w
         \<and> inferences (snd (page h tf lib audio_file temp_path w)) = inferences w
         \<and> screen (load_failed e w) =
             screen w @
               [Error (''Error saat memuat model TFLite di '' @ [CHR 0x27] @ TFLITE_MODEL_PATH
                         @ [CHR 0x27] @ '': '' @ exn_msg e),
                Info (''Pastikan Anda sudah menjalankan skrip '' @ [CHR 0x27]
                         @ ''convert_to_tflite.py'' @ [CHR 0x27] @ '' terlebih dahulu.'')]"
proof -
  have l: "load_tflite_model tf w = (Inr None, load_failed e w)"
    using assms by (auto simp: load_tflite_model_def)
  then have p: "page h tf lib audio_file temp_path w =
             (None, st (Warning ''Aplikasi belum siap. Model TFLite tidak dapat dimuat.'')
                      (page_header (load_failed e w)))"
    by (simp add: page_def)
  have "files (load_failed e w) = files w" "inferences (load_failed e w) = inferences w"
    by (simp_all add: load_failed_def files_st inferences_st)
  then have "files (snd (page h tf lib audio_file temp_path w)) = files w"
    "inferences (snd (page h tf lib audio_file temp_path w)) = inferences w"
    by (simp_all add: p files_st inferences_st files_page_header inferences_page_header)
  moreover have "screen (load_failed e w) =
             screen w @
               [Error (''Error saat memuat model TFLite di '' @ [CHR 0x27] @ TFLITE_MODEL_PATH
                         @ [CHR 0x27] @ '': '' @ exn_msg e),
                Info (''Pastikan Anda sudah menjalankan skrip '' @ [CHR 0x27]
                         @ ''convert_to_tflite.py'' @ [CHR 0x27] @ '' terlebih dahulu.'')]"
    by (simp add: load_failed_def st_def)
  ultimately show ?thesis using l p by simp
qed

theorem load_failure_blocks_page_witness:
  "page quiet_host missing_tflite toy_librosa (Some ''RIFF'') ''/tmp/tmpk2v9.wav'' blank =
     (None, st (Warning ''Aplikasi belum siap. Model TFLite tidak dapat dimuat.'')
              (page_header
                 (load_failed (Exn ''ValueError'' ''Could not open models/model.tflite'') blank)))
   \<and> files (snd (page quiet_host missing_tflite toy_librosa (Some ''RIFF'') ''/tmp/tmpk2v9.wav'' blank)) =
       Map.empty
   \<and> inferences (snd (page quiet_host missing_tflite toy_librosa (Some ''RIFF'') ''/tmp/tmpk2v9.wav'' blank))
       = 0"
proof -
  have "Interpreter missing_tflite TFLITE_MODEL_PATH =
          Inl (Exn ''ValueError'' ''Could not open models/model.tflite'')"
    by (simp add: missing_tflite_def toy_tflite_def TFLITE_MODEL_PATH_def)
  then have "Interpreter missing_tflite TFLITE_MODEL_PATH =
          Inl (Exn ''ValueError'' ''Could not open models/model.tflite'')
       \<or> (\<exists>i. Interpreter missing_tflite TFLITE_MODEL_PATH = Inr i
             \<and> allocate_tensors missing_tflite i =
                 Inl (Exn ''ValueError'' ''Could not open models/model.tflite''))"
    by (rule disjI1)
  from load_failure_blocks_page[OF this,
      of blank quiet_host toy_librosa "Some ''RIFF''" "''/tmp/tmpk2v9.wav''"]
  have "page quiet_host missing_tflite toy_librosa (Some ''RIFF'') ''/tmp/tmpk2v9.wav'' blank =
     (None, st (Warning ''Aplikasi belum siap. Model TFLite tidak dapat dimuat.'')
              (page_header
                 (load_failed (Exn ''ValueError'' ''Could not open models/model.tflite'') blank)))"
    and "files (snd (page quiet_host missing_tflite toy_librosa (Some ''RIFF'') ''/tmp/tmpk2v9.wav'' blank)) =
       files blank"
    and "inferences (snd (page quiet_host missing_tflite toy_librosa (Some ''RIFF'') ''/tmp/tmpk2v9.wav'' blank))
       = inferences blank"
    by blast+
  moreover have "files blank = Map.empty" "inferences blank = 0"
    by (simp_all add: blank_def)
  ultimately show ?thesis by (simp only: simp_thms)
qed

subsection \<open>The results shown\<close>

lemma np_argmax_tie:
  assumes "i < j" and "j < length p"
    and "p ! i = p ! j"
    and "\<forall>x\<in>set p. x \<le> p ! i"
    and "\<forall>x\<in>set (take i p). x < p ! i"
  shows "np_argmax p = Inr i"
proof -
  have "p \<noteq> []" using assms(2) by auto
  from np_argmax_first_max[OF this] obtain r where r: "np_argmax p = Inr r" "r < length p"
    "\<forall>j<length p. p ! j \<le> p ! r" "\<forall>j<r. p ! j < p ! r" by blast
  have il: "i < length p" using assms(1,2) by simp
  have "\<not> r < i"
  proof
    assume ri: "r < i"
    then have "p ! r \<in> set (take i p)"
      using il by (metis in_set_conv_nth length_take min.absorb2 less_imp_le nth_take)
    then have "p ! r < p ! i" using assms(5) by blast
    moreover have "p ! i \<le> p ! r" using r(3) il by blast
    ultimately show False by simp
  qed
  moreover have "\<not> i < r"
  proof
    assume "i < r"
    then have "p ! i < p ! r" using r(4) by blast
    moreover have "p ! r \<le> p ! i" using assms(4) r(2) by simp
    ultimately show False by simp
  qed
  ultimately have "r = i" by simp
  then show ?thesis using r(1) by simp
qed

text \<open>What the block of the results shows for a vector of 8 entries whose arg-max is \<open>i\<close>.\<close>

lemma show_results_shown:
  assumes "np_argmax p = Inr i" and "i < 8" and "length p = 8"
  shows "show_results p w =
           (None,
            w\<lparr>screen := screen w @
               [Subheader ([CHR 0xF0, CHR 0x9F, CHR 0xA7, CHR 0xA0] @ '' Emosi Dominan''),
                Metric ''Emosi Terkuat Terdeteksi'' (capitalize (EMOTION_LABELS ! i)) (p ! i),
                Markdown (''### '' @ [CHR 0xF0, CHR 0x9F, CHR 0x92, CHR 0xA1]
                            @ '' Saran untuk Anda''),
                Success (get_feedback (EMOTION_LABELS ! i)),
                Subheader ([CHR 0xF0, CHR 0x9F, CHR 0x93, CHR 0x88] @ '' Distribusi Emosi''),
                BarChart (zip (map capitalize EMOTION_LABELS) p)]\<rparr>)"
  using assms
  by (simp add: show_results_def py_index_def Let_def st_def length_EMOTION_LABELS)

text \<open>
  C2. The dominant label is derived by arg-max with ties broken by the lowest index: when
  the maximum of a vector of 8 entries is reached at \<open>i\<close> and again at a later index
  \<open>j\<close>, and at no index before \<open>i\<close>, the index selected is \<open>i\<close>, and the block of the
  results shows the \<open>i\<close>-th label of the sorted list as the dominant emotion, with the
  \<open>i\<close>-th entry as its confidence and the advisory text of that label.
\<close>

theorem show_results_tie_lowest_index:
  assumes "i < j" and "j < length p" and "length p = 8"
    and "p ! i = p ! j"
    and "\<forall>x\<in>set p. x \<le> p ! i"
    and "\<forall>x\<in>set (take i p). x < p ! i"
  shows "np_argmax p = Inr i
         \<and> show_results p w =
           (None,
            w\<lparr>screen := screen w @
               [Subheader ([CHR 0xF0, CHR 0x9F, CHR 0xA7, CHR 0xA0] @ '' Emosi Dominan''),
                Metric ''Emosi Terkuat Terdeteksi'' (capitalize (EMOTION_LABELS ! i)) (p ! i),
                Markdown (''### '' @ [CHR 0xF0, CHR 0x9F, CHR 0x92, CHR 0xA1]
                            @ '' Saran untuk Anda''),
                Success (get_feedback (EMOTION_LABELS ! i)),
                Subheader ([CHR 0xF0, CHR 0x9F, CHR 0x93, CHR 0x88] @ '' Distribusi Emosi''),
                BarChart (zip (map capitalize EMOTION_LABELS) p)]\<rparr>)"
proof -
  have a: "np_argmax p = Inr i"
    using assms(1,2,4,5,6) by (rule np_argmax_tie)
  have "i < 8" using assms(1,2,3) by simp
  with a show ?thesis using assms(3) by (simp only: show_results_shown simp_thms)
qed

theorem show_results_tie_lowest_index_witness:
  "np_argmax toy_output = Inr 1
   \<and> show_results toy_output blank =
       (None,
        \<lparr>files = Map.empty,
         screen =
           [Subheader ([CHR 0xF0, CHR 0x9F, CHR 0xA7, CHR 0xA0] @ '' Emosi Dominan''),
            Metric ''Emosi Terkuat Terdeteksi'' ''Calm'' (3/10),
            Markdown (''### '' @ [CHR 0xF0, CHR 0x9F, CHR 0x92, CHR 0xA1] @ '' Saran untuk Anda''),
            Success ([CHR 0xF0, CHR 0x9F, CHR 0xA7, CHR 0x98] @ '' Sangat baik! Suara Anda terdengar tenang, terkontrol, dan nyaman untuk didengar. Ini menciptakan suasana yang meyakinkan dan dapat dipercaya.''),
            Subheader ([CHR 0xF0, CHR 0x9F, CHR 0x93, CHR 0x88] @ '' Distribusi Emosi''),
            BarChart [(''Angry'', 1/10), (''Calm'', 3/10), (''Disgust'', 3/10),
                      (''Fearful'', 1/10), (''Happy'', 1/20), (''Neutral'', 1/20),
                      (''Sad'', 1/20), (''Surprised'', 1/20)]],
         inferences = 0\<rparr>)"
proof -
  have h: "(1::nat) < 2" "2 < length toy_output" "length toy_output = 8"
    "toy_output ! 1 = toy_output ! 2"
    "\<forall>x\<in>set toy_output. x \<le> toy_output ! 1"
    "\<forall>x\<in>set (take 1 toy_output). x < toy_output ! 1"
    by (simp_all add: toy_output_def)
  have cap: "map capitalize EMOTION_LABELS =
      [''Angry'', ''Calm'', ''Disgust'', ''Fearful'', ''Happy'', ''Neutral'', ''Sad'',
       ''Surprised'']"
    by code_simp
  have lab: "EMOTION_LABELS ! Suc 0 = ''calm''" by (simp add: EMOTION_LABELS_eq)
  have c1: "capitalize ''calm'' = ''Calm''"
    by code_simp
  have fb: "get_feedback ''calm'' = [CHR 0xF0, CHR 0x9F, CHR 0xA7, CHR 0x98] @ '' Sangat baik! Suara Anda terdengar tenang, terkontrol, dan nyaman untuk didengar. Ini menciptakan suasana yang meyakinkan dan dapat dipercaya.''"
    by (simp add: get_feedback_def feedback_dict_def)
  have p1: "toy_output ! 1 = 3/10" by (simp add: toy_output_def)
  from show_results_tie_lowest_index[OF h, of blank]
  have "np_argmax toy_output = Inr 1"
    and "show_results toy_output blank =
           (None,
            blank\<lparr>screen := screen blank @
               [Subheader ([CHR 0xF0, CHR 0x9F, CHR 0xA7, CHR 0xA0] @ '' Emosi Dominan''),
                Metric ''Emosi Terkuat Terdeteksi'' (capitalize (EMOTION_LABELS ! 1))
                  (toy_output ! 1),
                Markdown (''### '' @ [CHR 0xF0, CHR 0x9F, CHR 0x92, CHR 0xA1]
                            @ '' Saran untuk Anda''),
                Success (get_feedback (EMOTION_LABELS ! 1)),
                Subheader ([CHR 0xF0, CHR 0x9F, CHR 0x93, CHR 0x88] @ '' Distribusi Emosi''),
                BarChart (zip (map capitalize EMOTION_LABELS) toy_output)]\<rparr>)"
    by blast+
  then show ?thesis
    by (simp add: cap lab c1 fb p1 blank_def) (simp add: toy_output_def)
qed

text \<open>
  C10. For every vector of 8 entries the arg-max \<open>i\<close> is an index of \<open>EMOTION_LABELS\<close>,
  so neither subscript raises; the label that the block of the results passes to
  \<open>get_feedback\<close> is the \<open>i\<close>-th label, a key of the dictionary; the text shown in the
  success widget is the entry of that key and not the fallback; and the block ends
  without an exception.
\<close>

theorem pipeline_label_known:
  assumes "length p = 8"
  shows "\<exists>i<8. np_argmax p = Inr i
           \<and> py_index EMOTION_LABELS i = Inr (EMOTION_LABELS ! i)
           \<and> py_index p i = Inr (p ! i)
           \<and> map_of feedback_dict (EMOTION_LABELS ! i) = Some (get_feedback (EMOTION_LABELS ! i))
           \<and> get_feedback (EMOTION_LABELS ! i) \<noteq> fallback_feedback
           \<and> show_results p w =
               (None,
                w\<lparr>screen := screen w @
                   [Subheader ([CHR 0xF0, CHR 0x9F, CHR 0xA7, CHR 0xA0] @ '' Emosi Dominan''),
                    Metric ''Emosi Terkuat Terdeteksi'' (capitalize (EMOTION_LABELS ! i)) (p ! i),
                    Markdown (''### '' @ [CHR 0xF0, CHR 0x9F, CHR 0x92, CHR 0xA1]
                                @ '' Saran untuk Anda''),
                    Success (get_feedback (EMOTION_LABELS ! i)),
                    Subheader ([CHR 0xF0, CHR 0x9F, CHR 0x93, CHR 0x88] @ '' Distribusi Emosi''),
                    BarChart (zip (map capitalize EMOTION_LABELS) p)]\<rparr>)"
proof -
  have "p \<noteq> []" using assms by auto
  from np_argmax_first_max[OF this] obtain i where i: "np_argmax p = Inr i" "i < length p"
    by blast
  then have i8: "i < 8" using assms by simp
  then have il: "i < length EMOTION_LABELS" by (simp add: length_EMOTION_LABELS)
  then have mem: "EMOTION_LABELS ! i \<in> set EMOTION_LABELS" by simp
  then have "EMOTION_LABELS ! i \<in> dom (map_of feedback_dict)" by (simp add: dom_feedback_dict)
  then have known:
    "map_of feedback_dict (EMOTION_LABELS ! i) = Some (get_feedback (EMOTION_LABELS ! i))"
    by (auto simp: get_feedback_def)
  have "fallback_feedback \<notin> set (map get_feedback EMOTION_LABELS)"
    by (simp add: EMOTION_LABELS_eq get_feedback_def feedback_dict_def fallback_feedback_def)
  moreover have "get_feedback (EMOTION_LABELS ! i) \<in> set (map get_feedback EMOTION_LABELS)"
    using mem by (simp only: set_map) (rule imageI)
  ultimately have nf: "get_feedback (EMOTION_LABELS ! i) \<noteq> fallback_feedback"
    by metis
  have idx: "py_index EMOTION_LABELS i = Inr (EMOTION_LABELS ! i)" "py_index p i = Inr (p ! i)"
    using il i(2) by (simp_all add: py_index_def)
  note shown = show_results_shown[OF i(1) i8 assms, of w]
  show ?thesis
    using i8 i(1) idx known nf shown by blast
qed

theorem pipeline_label_known_witness:
  "np_argmax [0, 0, 0, 0, 0, 0, 1, 0 :: real] = Inr 6
   \<and> EMOTION_LABELS ! 6 = ''sad''
   \<and> get_feedback ''sad'' \<noteq> fallback_feedback
   \<and> fst (show_results [0, 0, 0, 0, 0, 0, 1, 0 :: real] blank) = None
   \<and> Success (get_feedback ''sad'')
        \<in> set (screen (snd (show_results [0, 0, 0, 0, 0, 0, 1, 0 :: real] blank)))"
proof -
  let ?p = "[0, 0, 0, 0, 0, 0, 1, 0 :: real]"
  have len: "length ?p = 8" by simp
  have am: "np_argmax ?p = Inr 6" by (simp add: np_argmax_def)
  have lab: "EMOTION_LABELS ! 6 = ''sad''" by (simp add: EMOTION_LABELS_eq)
  from pipeline_label_known[OF len, of blank] obtain i where i: "np_argmax ?p = Inr i"
    "get_feedback (EMOTION_LABELS ! i) \<noteq> fallback_feedback"
    "show_results ?p blank =
               (None,
                blank\<lparr>screen := screen blank @
                   [Subheader ([CHR 0xF0, CHR 0x9F, CHR 0xA7, CHR 0xA0] @ '' Emosi Dominan''),
                    Metric ''Emosi Terkuat Terdeteksi'' (capitalize (EMOTION_LABELS ! i)) (?p ! i),
                    Markdown (''### '' @ [CHR 0xF0, CHR 0x9F, CHR 0x92, CHR 0xA1]
                                @ '' Saran untuk Anda''),
                    Success (get_feedback (EMOTION_LABELS ! i)),
                    Subheader ([CHR 0xF0, CHR 0x9F, CHR 0x93, CHR 0x88] @ '' Distribusi Emosi''),
                    BarChart (zip (map capitalize EMOTION_LABELS) ?p)]\<rparr>)"
    by blast
  from i(1) am have "i = 6" by simp
  then show ?thesis using i(2,3) am lab by simp
qed

subsection \<open>Inference\<close>

lemma has_shape4_expand_dims:
  "has_shape r c features \<Longrightarrow> has_shape4 1 r c 1 (expand_dims features)"
  by (auto simp: has_shape4_def has_shape_def expand_dims_def list_all_iff)

lemma expand_dims_cell:
  assumes "has_shape r c features" and "i < r" and "j < c"
  shows "expand_dims features ! 0 ! i ! j = [features ! i ! j]"
proof -
  have "i < length features" "j < length (features ! i)"
    using assms by (auto simp: has_shape_def list_all_length)
  then show ?thesis by (simp add: expand_dims_def)
qed

lemma run_tflite_inference_row0:
  assumes "get_input_details tf interpreter = input_index # ins"
    and "get_output_details tf interpreter = output_index # outs"
    and "set_tensor tf interpreter input_index input_data = Inr i1"
    and "invoke tf i1 = Inr i2"
    and "get_tensor tf i2 output_index = Inr (row # rest)"
  shows "run_tflite_inference tf interpreter input_data = Inr (row, i2)"
  using assms by (simp add: run_tflite_inference_def py_index_def)

lemma show_results_raises:
  assumes "length p \<noteq> 8"
  shows "fst (show_results p w) \<noteq> None"
  using assms
  by (simp add: show_results_def Let_def length_EMOTION_LABELS split: sum.splits)

lemma analyse_reaches_inference:
  assumes "fp_write h temp_path audio_bytes = None"
    and "uncaught h temp_path = None"
    and "librosa_load lib ((files w)(temp_path \<mapsto> audio_bytes)) temp_path 22050 3 =
           Inr (y, sample_rate)"
    and "mfcc lib y sample_rate 40 = Inr m"
    and "run_tflite_inference tf interpreter (expand_dims (pad_or_truncate m 862)) =
           Inr (row, i2)"
  shows "analyse h tf lib interpreter audio_bytes temp_path w =
           show_results row
             ((st (Spinner (''Menganalisis dengan kecepatan kilat... ''
                     @ [CHR 0xE2, CHR 0x9A, CHR 0xA1]))
                (st (Audio audio_bytes) (st (Header ''Hasil Analisis'') w)))
              \<lparr>files := (files w)(temp_path := None), inferences := inferences w + 1\<rparr>)"
proof -
  let ?w3 = "st (Spinner (''Menganalisis dengan kecepatan kilat... ''
                     @ [CHR 0xE2, CHR 0x9A, CHR 0xA1]))
                (st (Audio audio_bytes) (st (Header ''Hasil Analisis'') w))"
  let ?w4 = "?w3\<lparr>files := (files ?w3)(temp_path \<mapsto> audio_bytes)\<rparr>"
  have "librosa_load lib (files ?w4) temp_path 22050 3 = Inr (y, sample_rate)"
    using assms(3) by (simp add: files_st)
  then have ex: "extract_default lib temp_path ?w4 = (Inr (Some (pad_or_truncate m 862)), ?w4)"
    using assms(4) by (simp add: extract_default_def extract_ok)
  have rm: "os_remove temp_path ?w4 = Inr (?w4\<lparr>files := (files w)(temp_path := None)\<rparr>)"
    by (simp add: os_remove_def files_st)
  have "analyse h tf lib interpreter audio_bytes temp_path w =
          show_results row (?w4\<lparr>files := (files w)(temp_path := None),
                                inferences := inferences w + 1\<rparr>)"
    using assms(1,2,5) ex rm by (simp add: analyse_def Let_def files_st inferences_st)
  then show ?thesis by (simp add: files_st)
qed

text \<open>
  C7, as the script has it. The claim that the vector returned has length 8 does not hold
  of the code, which returns whatever row the model gives: with a model of three classes
  the vector returned has three entries.
\<close>

theorem run_tflite_inference_three_classes:
  "run_tflite_inference three_class_tflite (None, []) (expand_dims [[1, 2, 3], [4, 5, 6]]) =
     Inr ([1/2, 1/4, 1/4], (Some [[[[1], [2], [3]], [[4], [5], [6]]]], [[1/2, 1/4, 1/4]]))"
  by (simp add: run_tflite_inference_def py_index_def three_class_tflite_def toy_tflite_def
        expand_dims_def)

text \<open>
  C7, amended. For an upload that is written, decoded and turned into an MFCC matrix of
  40 rows, the tensor given to the model is the feature matrix with a batch axis and a
  channel axis of length 1 added: shape (1, 40, 862, 1), every cell holding the entry of
  the matrix at its place. When the runtime accepts it, \<open>run_tflite_inference\<close> returns
  row 0 of the output tensor as the runtime gives it, whatever its length, and that row
  is the vector whose results the page shows. The script does not check the length: when
  the row has 8 entries the chart pairs entry \<open>k\<close> with the \<open>k\<close>-th label of the sorted
  list; when it has not, the display raises.
\<close>

theorem classify_in_analyse:
  assumes "fp_write h temp_path audio_bytes = None"
    and "uncaught h temp_path = None"
    and "librosa_load lib ((files w)(temp_path \<mapsto> audio_bytes)) temp_path 22050 3 =
           Inr (y, sample_rate)"
    and "mfcc lib y sample_rate 40 = Inr m"
    and "has_shape 40 T m"
    and "get_input_details tf interpreter = input_index # ins"
    and "get_output_details tf interpreter = output_index # outs"
    and "set_tensor tf interpreter input_index (expand_dims (pad_or_truncate m 862)) = Inr i1"
    and "invoke tf i1 = Inr i2"
    and "get_tensor tf i2 output_index = Inr (row # rest)"
  shows "has_shape4 1 40 862 1 (expand_dims (pad_or_truncate m 862))
         \<and> (\<forall>i<40. \<forall>j<862.
               expand_dims (pad_or_truncate m 862) ! 0 ! i ! j = [pad_or_truncate m 862 ! i ! j])
         \<and> run_tflite_inference tf interpreter (expand_dims (pad_or_truncate m 862)) =
             Inr (row, i2)
         \<and> analyse h tf lib interpreter audio_bytes temp_path w =
             show_results row
               ((st (Spinner (''Menganalisis dengan kecepatan kilat... ''
                       @ [CHR 0xE2, CHR 0x9A, CHR 0xA1]))
                  (st (Audio audio_bytes) (st (Header ''Hasil Analisis'') w)))
                \<lparr>files := (files w)(temp_path := None), inferences := inferences w + 1\<rparr>)
         \<and> (length row = 8 \<longrightarrow>
               fst (analyse h tf lib interpreter audio_bytes temp_path w) = None
               \<and> last (screen (snd (analyse h tf lib interpreter audio_bytes temp_path w))) =
                   BarChart (zip (map capitalize EMOTION_LABELS) row)
               \<and> (\<forall>k<8. zip (map capitalize EMOTION_LABELS) row ! k =
                     (capitalize (EMOTION_LABELS ! k), row ! k)))
         \<and> (length row \<noteq> 8 \<longrightarrow>
               fst (analyse h tf lib interpreter audio_bytes temp_path w) \<noteq> None)
         \<and> EMOTION_LABELS =
             [''angry'', ''calm'', ''disgust'', ''fearful'', ''happy'', ''neutral'', ''sad'',
              ''surprised'']"
proof -
  let ?f = "pad_or_truncate m 862"
  let ?W = "(st (Spinner (''Menganalisis dengan kecepatan kilat... ''
                       @ [CHR 0xE2, CHR 0x9A, CHR 0xA1]))
                  (st (Audio audio_bytes) (st (Header ''Hasil Analisis'') w)))
                \<lparr>files := (files w)(temp_path := None), inferences := inferences w + 1\<rparr>"
  have sh: "has_shape 40 862 ?f"
    using has_shape_pad_or_truncate[OF assms(5), of 862] by simp
  have a: "has_shape4 1 40 862 1 (expand_dims ?f)"
    using sh by (rule has_shape4_expand_dims)
  have b: "\<forall>i<40. \<forall>j<862. expand_dims ?f ! 0 ! i ! j = [?f ! i ! j]"
    using sh by (simp add: expand_dims_cell)
  have c: "run_tflite_inference tf interpreter (expand_dims ?f) = Inr (row, i2)"
    using assms(6-10) by (rule run_tflite_inference_row0)
  have d: "analyse h tf lib interpreter audio_bytes temp_path w = show_results row ?W"
    using assms(1-4) c by (rule analyse_reaches_inference)
  have e: "length row = 8 \<longrightarrow>
               fst (analyse h tf lib interpreter audio_bytes temp_path w) = None
               \<and> last (screen (snd (analyse h tf lib interpreter audio_bytes temp_path w))) =
                   BarChart (zip (map capitalize EMOTION_LABELS) row)
               \<and> (\<forall>k<8. zip (map capitalize EMOTION_LABELS) row ! k =
                     (capitalize (EMOTION_LABELS ! k), row ! k))"
  proof
    assume len: "length row = 8"
    then have "row \<noteq> []" by auto
    from np_argmax_first_max[OF this] obtain i where i: "np_argmax row = Inr i" "i < length row"
      by blast
    then have "i < 8" using len by simp
    from show_results_shown[OF i(1) this len, of ?W]
    have "fst (show_results row ?W) = None"
      and "last (screen (snd (show_results row ?W))) =
             BarChart (zip (map capitalize EMOTION_LABELS) row)"
      by simp_all
    moreover have "\<forall>k<8. zip (map capitalize EMOTION_LABELS) row ! k =
                     (capitalize (EMOTION_LABELS ! k), row ! k)"
      using len by (simp add: length_EMOTION_LABELS)
    ultimately show "fst (analyse h tf lib interpreter audio_bytes temp_path w) = None
               \<and> last (screen (snd (analyse h tf lib interpreter audio_bytes temp_path w))) =
                   BarChart (zip (map capitalize EMOTION_LABELS) row)
               \<and> (\<forall>k<8. zip (map capitalize EMOTION_LABELS) row ! k =
                     (capitalize (EMOTION_LABELS ! k), row ! k))"
      by (simp only: d simp_thms)
  qed
  have f: "length row \<noteq> 8 \<longrightarrow>
               fst (analyse h tf lib interpreter audio_bytes temp_path w) \<noteq> None"
    by (simp only: d) (simp add: show_results_raises)
  show ?thesis using a b c d e f EMOTION_LABELS_eq by blast
qed

theorem classify_in_analyse_witness:
  "run_tflite_inference toy_tflite (None, [])
       (expand_dims (pad_or_truncate (replicate 40 [82, 73, 70, 70]) 862)) =
     Inr (toy_output,
          (Some (expand_dims (pad_or_truncate (replicate 40 [82, 73, 70, 70]) 862)),
           [toy_output]))
   \<and> fst (analyse quiet_host toy_tflite toy_librosa (None, []) ''RIFF'' ''/tmp/tmpk2v9.wav''
            blank) = None
   \<and> last (screen (snd (analyse quiet_host toy_tflite toy_librosa (None, []) ''RIFF''
                           ''/tmp/tmpk2v9.wav'' blank))) =
       BarChart (zip (map capitalize EMOTION_LABELS) toy_output)"
proof -
  let ?m = "replicate 40 [82, 73, 70, 70 :: real]"
  let ?x = "expand_dims (pad_or_truncate ?m 862)"
  let ?i1 = "(Some ?x, []) :: real tensor4 option \<times> real matrix"
  let ?i2 = "(Some ?x, [toy_output]) :: real tensor4 option \<times> real matrix"
  have h: "fp_write quiet_host ''/tmp/tmpk2v9.wav'' ''RIFF'' = None"
    "uncaught quiet_host ''/tmp/tmpk2v9.wav'' = None"
    "librosa_load toy_librosa ((files blank)(''/tmp/tmpk2v9.wav'' \<mapsto> ''RIFF''))
       ''/tmp/tmpk2v9.wav'' 22050 3 = Inr ([82, 73, 70, 70], 22050)"
    "mfcc toy_librosa [82, 73, 70, 70] 22050 40 = Inr ?m"
    "has_shape 40 4 ?m"
    "get_input_details toy_tflite (None, []) = 0 # []"
    "get_output_details toy_tflite (None, []) = 1 # []"
    "set_tensor toy_tflite (None, []) 0 ?x = Inr ?i1"
    "invoke toy_tflite ?i1 = Inr ?i2"
    "get_tensor toy_tflite ?i2 1 = Inr (toy_output # [])"
    by (simp_all add: quiet_host_def librosa_load_def toy_librosa_def toy_tflite_def
          has_shape_def list_all_iff)
  have len: "length toy_output = 8" by (simp add: toy_output_def)
  from classify_in_analyse[OF h] len show ?thesis by blast
qed

subsection \<open>The temporary file\<close>

lemma files_show_results: "files (snd (show_results prediction w)) = files w"
  by (simp add: show_results_def Let_def files_st split: sum.splits)

text \<open>
  When the bytes are written and nothing escapes the handler of the extraction, the
  temporary file is gone at the end of the block, however the libraries behave: a failed
  decode is caught, so \<^verbatim>\<open>os.remove\<close> is reached, and inference and display come
  after it.
\<close>

lemma temp_file_removed_when_written:
  assumes "fp_write h temp_path audio_bytes = None" and "uncaught h temp_path = None"
  shows "files (snd (analyse h tf lib interpreter audio_bytes temp_path w)) =
           (files w)(temp_path := None)"
proof -
  let ?w4 = "(st (Spinner (''Menganalisis dengan kecepatan kilat... ''
                     @ [CHR 0xE2, CHR 0x9A, CHR 0xA1]))
               (st (Audio audio_bytes) (st (Header ''Hasil Analisis'') w)))
             \<lparr>files := (files w)(temp_path \<mapsto> audio_bytes)\<rparr>"
  obtain r scr where ex: "extract_default lib temp_path ?w4 = (Inr r, ?w4\<lparr>screen := scr\<rparr>)"
    using extract_returns[of lib temp_path 22050 40 862 ?w4]
    by (auto simp: extract_default_def)
  have rm: "os_remove temp_path (?w4\<lparr>screen := scr\<rparr>) =
              Inr (?w4\<lparr>screen := scr, files := (files w)(temp_path := None)\<rparr>)"
    by (simp add: os_remove_def)
  show ?thesis
  proof (cases r)
    case None
    then show ?thesis
      using ex rm assms by (simp add: analyse_def Let_def files_st)
  next
    case (Some f)
    then show ?thesis
      using ex rm assms
      by (simp add: analyse_def Let_def files_st files_show_results split: sum.splits prod.splits)
  qed
qed

text \<open>
  C9. The claim is that the temporary file is removed on every exit path of the work done
  for an upload. The code removes it only on the paths that reach line 104: there is no
  \<^verbatim>\<open>try ... finally\<close> around lines 99 to 104. On a disk that is full the write of
  line 100 raises, the run ends there, and the file created by line 99 is still present;
  when Streamlit asks for a rerun while the features are extracted, the exception leaves
  line 103 and the file, holding the upload, is still present.
\<close>

theorem temp_file_left_behind:
  "analyse full_disk_host toy_tflite toy_librosa (None, []) ''RIFF'' ''/tmp/tmpk2v9.wav'' blank =
     (Some (Exn ''OSError'' ''[Errno 28] No space left on device''),
      \<lparr>files = [''/tmp/tmpk2v9.wav'' \<mapsto> ''''],
       screen = [Header ''Hasil Analisis'', Audio ''RIFF'',
                 Spinner (''Menganalisis dengan kecepatan kilat... ''
                            @ [CHR 0xE2, CHR 0x9A, CHR 0xA1])],
       inferences = 0\<rparr>)
   \<and> analyse rerun_host toy_tflite toy_librosa (None, []) '''' ''/tmp/tmpk2v9.wav'' blank =
     (Some (Exn ''RerunException'' ''rerun''),
      \<lparr>files = [''/tmp/tmpk2v9.wav'' \<mapsto> ''''],
       screen = [Header ''Hasil Analisis'', Audio '''',
                 Spinner (''Menganalisis dengan kecepatan kilat... ''
                            @ [CHR 0xE2, CHR 0x9A, CHR 0xA1])],
       inferences = 0\<rparr>)"
  by (simp add: analyse_def Let_def full_disk_host_def rerun_host_def quiet_host_def st_def
        blank_def)

end
